theory Spec2Isabelle
  imports Complex_Main "HOL-Library.Word" "HOL-Library.Signed_Division"
begin

section \<open>TelemetryLink sensor service: data model\<close>

text \<open>
  The embedding follows \<^verbatim>\<open>src/sensor/sensor.cpp\<close>. A C++ \<^verbatim>\<open>double\<close> is
  modelled by a real number (the claims below depend on comparisons and on the branch
  structure only, not on rounding), a C++ \<^verbatim>\<open>int\<close> by a 32-bit word and a
  \<^verbatim>\<open>long\<close> by a 64-bit word, both read as two's complement by \<open>sint\<close>.
  Signed overflow is undefined in C++; the model wraps around, and every statement that
  speaks of a numeric increase says how far the counter must be from \<^verbatim>\<open>INT_MAX\<close>.
\<close>

text \<open>
  \<^verbatim>\<open>struct SensorData\<close> (lines 23-30). The field \<^verbatim>\<open>value\<close> is named
  \<open>value_d\<close>, since \<^verbatim>\<open>value\<close> is a keyword of the theory language.
\<close>

record SensorData =
  sensor_id :: string
  value_d :: real
  timestamp :: string
  is_valid :: bool

text \<open>The default constructor of line 29, which is the start value of the global
  \<^verbatim>\<open>sensor_reading\<close> (line 32).\<close>

definition SensorData_init :: SensorData where
  "SensorData_init = \<lparr>sensor_id = '''', value_d = -1, timestamp = '''', is_valid = False\<rparr>"

text \<open>\<^verbatim>\<open>struct CpuTimes\<close> (lines 36-38): eight \<^verbatim>\<open>long\<close> counters.\<close>

record CpuTimes =
  user :: "64 word"
  nice :: "64 word"
  system :: "64 word"
  idle :: "64 word"
  iowait :: "64 word"
  irq :: "64 word"
  softirq :: "64 word"
  steal :: "64 word"

text \<open>\<^verbatim>\<open>CpuTimes prev_cpu_times = {0}\<close> (line 40).\<close>

definition CpuTimes_zero :: CpuTimes where
  "CpuTimes_zero = \<lparr>user = 0, nice = 0, system = 0, idle = 0, iowait = 0, irq = 0,
     softirq = 0, steal = 0\<rparr>"

section \<open>The reporter: \<^verbatim>\<open>comm_thread\<close>\<close>

text \<open>
  The message is an \<^verbatim>\<open>nlohmann::json\<close> object built from an initializer list of
  key/value pairs. The library stores an object as a \<^verbatim>\<open>std::map\<close> from key to
  value, so the model is a finite map; the first pair of a key wins, as with
  \<open>map_of\<close>. The text produced by \<^verbatim>\<open>dump()\<close> is the library's business and is
  not modelled: what is handed to the socket is identified with the object.
\<close>

datatype json_value = JString string | JNumber real | JBool bool

type_synonym json = "string \<rightharpoonup> json_value"

definition json_object :: "(string \<times> json_value) list \<Rightarrow> json" where
  "json_object kvs = map_of kvs"

text \<open>
  What one request/reply exchange on the ZeroMQ socket does (lines 216-223) is decided
  outside the program: \<^verbatim>\<open>send\<close> throws, \<^verbatim>\<open>recv\<close> throws, \<^verbatim>\<open>recv\<close>
  returns an empty result, or a reply arrives. The thrown exception carries its
  \<^verbatim>\<open>what()\<close> text.
\<close>

datatype zmq_outcome = SendThrows string | RecvThrows string | RecvEmpty | RecvReply

text \<open>
  The lines the reporter writes to \<^verbatim>\<open>std::cout\<close> and \<^verbatim>\<open>std::cerr\<close> in and
  after its loop: the corruption report (lines 189-191), the two reports of a failed
  exchange (lines 220 and 222), the rolling summary (lines 227-229) and the final summary
  (lines 239-241). The two \<^verbatim>\<open>[INFO]\<close> lines at the start and the exit of the thread
  are left out.
\<close>

datatype log_line =
    ErrorDataCorruption string real string
  | WarnNoReply
  | ErrorZmqFailed string
  | Stats "32 word" "32 word" real
  | FinalStats "32 word" "32 word" real

text \<open>
  The locals \<^verbatim>\<open>corruption_count\<close> and \<^verbatim>\<open>total_reads\<close> of \<^verbatim>\<open>comm_thread\<close>
  (lines 170-171), together with what the thread has done so far: the lines written and
  the payloads handed to \<^verbatim>\<open>g_sock->send\<close>.
\<close>

record comm_state =
  corruption_count :: "32 word"
  total_reads :: "32 word"
  console :: "log_line list"
  sent :: "json list"

definition comm_init :: comm_state where
  "comm_init = \<lparr>corruption_count = 0, total_reads = 0, console = [], sent = []\<rparr>"

text \<open>The condition of the \<^verbatim>\<open>if\<close> of lines 182-185.\<close>

definition corrupted :: "SensorData \<Rightarrow> bool" where
  "corrupted current_reading \<longleftrightarrow>
     (sensor_id current_reading = ''cpu_usage_01'' \<and>
        (value_d current_reading > 100 \<or> value_d current_reading < 0)) \<or>
     (sensor_id current_reading = ''disk_usage_root'' \<and> value_d current_reading > 100) \<or>
     sensor_id current_reading = [] \<or>
     timestamp current_reading = []"

text \<open>Lines 195-210.\<close>

definition build_message :: "SensorData \<Rightarrow> bool \<Rightarrow> json" where
  "build_message current_reading data_consistent =
     (if sensor_id current_reading = ''cpu_usage_01'' then
        json_object
          [(''sensor_id'', JString (sensor_id current_reading)),
           (''timestamp'', JString (timestamp current_reading)),
           (''cpu_usage_percent'', JNumber (value_d current_reading)),
           (''data_consistent'', JBool data_consistent)]
      else
        json_object
          [(''sensor_id'', JString (sensor_id current_reading)),
           (''timestamp'', JString (timestamp current_reading)),
           (''disk_usage_percent'', JNumber (value_d current_reading)),
           (''data_consistent'', JBool data_consistent)])"

text \<open>Lines 216-223: what the exchange writes to \<^verbatim>\<open>std::cerr\<close>.\<close>

fun exchange_log :: "zmq_outcome \<Rightarrow> log_line list" where
  "exchange_log (SendThrows what) = [ErrorZmqFailed what]"
| "exchange_log (RecvThrows what) = [ErrorZmqFailed what]"
| "exchange_log RecvEmpty = [WarnNoReply]"
| "exchange_log RecvReply = []"

text \<open>\<^verbatim>\<open>(double)corruption_count / total_reads * 100.0\<close> (lines 226 and 238).\<close>

definition corruption_rate :: "32 word \<Rightarrow> 32 word \<Rightarrow> real" where
  "corruption_rate cc tr = real_of_int (sint cc) / real_of_int (sint tr) * 100"

text \<open>
  One iteration of the loop of lines 173-236. Its inputs are the content of the global
  \<^verbatim>\<open>sensor_reading\<close> at the copy of line 177 and the outcome of the exchange.
  \<^verbatim>\<open>total_reads % 50\<close> is C++'s truncating remainder.
\<close>

definition comm_tick :: "SensorData \<Rightarrow> zmq_outcome \<Rightarrow> comm_state \<Rightarrow> comm_state" where
  "comm_tick sensor_reading z s =
     (let current_reading = sensor_reading;
          total_reads' = total_reads s + 1
      in if is_valid current_reading then
           let bad = corrupted current_reading;
               corruption_count' = (if bad then corruption_count s + 1 else corruption_count s);
               data_consistent = \<not> bad;
               message = build_message current_reading data_consistent
           in \<lparr>corruption_count = corruption_count',
               total_reads = total_reads',
               console = console s
                 @ (if bad then [ErrorDataCorruption (sensor_id current_reading)
                      (value_d current_reading) (timestamp current_reading)] else [])
                 @ exchange_log z
                 @ (if sint total_reads' smod 50 = 0
                    then [Stats total_reads' corruption_count'
                            (corruption_rate corruption_count' total_reads')]
                    else []),
               sent = sent s @ [message]\<rparr>
         else s\<lparr>total_reads := total_reads'\<rparr>)"

text \<open>
  The loop runs while the flag \<^verbatim>\<open>running\<close> is set; the flag is cleared from outside
  (signal handler, \<^verbatim>\<open>main\<close>), so a run of the thread is given by the inputs of the
  iterations it makes.
\<close>

fun comm_loop :: "(SensorData \<times> zmq_outcome) list \<Rightarrow> comm_state \<Rightarrow> comm_state" where
  "comm_loop [] s = s"
| "comm_loop ((sensor_reading, z) # rest) s = comm_loop rest (comm_tick sensor_reading z s)"

text \<open>Lines 238-241, after the loop.\<close>

definition final_stats :: "comm_state \<Rightarrow> comm_state" where
  "final_stats s =
     (let final_corruption_rate =
            (if 0 <s total_reads s then corruption_rate (corruption_count s) (total_reads s)
             else 0)
      in s\<lparr>console := console s
            @ [FinalStats (total_reads s) (corruption_count s) final_corruption_rate]\<rparr>)"

definition comm_thread :: "(SensorData \<times> zmq_outcome) list \<Rightarrow> comm_state" where
  "comm_thread ticks = final_stats (comm_loop ticks comm_init)"

text \<open>Which lines report a failed exchange (lines 220 and 222).\<close>

fun is_transport_failure :: "log_line \<Rightarrow> bool" where
  "is_transport_failure WarnNoReply = True"
| "is_transport_failure (ErrorZmqFailed what) = True"
| "is_transport_failure other = False"

text \<open>Which lines are rolling summaries (lines 227-229).\<close>

fun is_stats :: "log_line \<Rightarrow> bool" where
  "is_stats (Stats tr cc rate) = True"
| "is_stats other = False"

section \<open>The CPU sampler: \<^verbatim>\<open>calculate_cpu_usage\<close> and \<^verbatim>\<open>sensor_thread\<close>\<close>

text \<open>
  A division of two \<^verbatim>\<open>double\<close>s. A zero divisor does not trap in C++ (the result
  is an infinity or a NaN); the model marks it with \<open>None\<close>, so that "no division
  by zero happens" is a property of the result.
\<close>

definition fdiv :: "real \<Rightarrow> real \<Rightarrow> real option" where
  "fdiv a b = (if b = 0 then None else Some (a / b))"

text \<open>The locals \<^verbatim>\<open>total_diff\<close> and \<^verbatim>\<open>idle_diff\<close> of lines 73-85, as functions
  of the sample just read and of the stored one.\<close>

definition idle_diff :: "CpuTimes \<Rightarrow> CpuTimes \<Rightarrow> 64 word" where
  "idle_diff current prev_cpu_times =
     (let prev_idle = idle prev_cpu_times + iowait prev_cpu_times;
          curr_idle = idle current + iowait current
      in curr_idle - prev_idle)"

definition total_diff :: "CpuTimes \<Rightarrow> CpuTimes \<Rightarrow> 64 word" where
  "total_diff current prev_cpu_times =
     (let prev_idle = idle prev_cpu_times + iowait prev_cpu_times;
          curr_idle = idle current + iowait current;
          prev_non_idle = user prev_cpu_times + nice prev_cpu_times + system prev_cpu_times
            + irq prev_cpu_times + softirq prev_cpu_times + steal prev_cpu_times;
          curr_non_idle = user current + nice current + system current
            + irq current + softirq current + steal current;
          prev_total = prev_idle + prev_non_idle;
          curr_total = curr_idle + curr_non_idle
      in curr_total - prev_total)"

text \<open>
  Lines 69-96. The first argument is what \<^verbatim>\<open>read_cpu_times()\<close> returns at line 70,
  the second the global \<^verbatim>\<open>prev_cpu_times\<close>; the result is the returned usage and the
  new content of the global (line 92). The comparison of line 88 is the signed one. The
  \<^verbatim>\<open>[INFO]\<close> line of line 94 is left out.
\<close>

definition calculate_cpu_usage :: "CpuTimes \<Rightarrow> CpuTimes \<Rightarrow> (real \<times> CpuTimes) option" where
  "calculate_cpu_usage current prev_cpu_times =
     (if 0 <s total_diff current prev_cpu_times then
        (case fdiv (real_of_int (sint (total_diff current prev_cpu_times
                      - idle_diff current prev_cpu_times)))
                   (real_of_int (sint (total_diff current prev_cpu_times))) of
           None \<Rightarrow> None
         | Some q \<Rightarrow> Some (q * 100, current))
      else Some (0, current))"

text \<open>The record a CPU publication writes, field by field, at lines 108-117, and the one a
  disk publication writes at lines 146-155.\<close>

definition cpu_publication :: "real \<Rightarrow> string \<Rightarrow> SensorData" where
  "cpu_publication cpu_usage ts =
     \<lparr>sensor_id = ''cpu_usage_01'', value_d = cpu_usage, timestamp = ts, is_valid = True\<rparr>"

definition disk_publication :: "real \<Rightarrow> string \<Rightarrow> SensorData" where
  "disk_publication usage ts =
     \<lparr>sensor_id = ''disk_usage_root'', value_d = usage, timestamp = ts, is_valid = True\<rparr>"

text \<open>
  The loop of lines 105-121: each iteration is given by the sample read from
  \<^verbatim>\<open>/proc/stat\<close> and the text \<^verbatim>\<open>timestamp()\<close> returns; the result lists the
  publications in order.
\<close>

fun sensor_loop :: "(CpuTimes \<times> string) list \<Rightarrow> CpuTimes \<Rightarrow> SensorData list option" where
  "sensor_loop [] prev_cpu_times = Some []"
| "sensor_loop ((current, ts) # rest) prev_cpu_times =
     (case calculate_cpu_usage current prev_cpu_times of
        None \<Rightarrow> None
      | Some (cpu_usage, prev_cpu_times') \<Rightarrow>
          map_option ((#) (cpu_publication cpu_usage ts)) (sensor_loop rest prev_cpu_times'))"

text \<open>Lines 98-123: line 102 overwrites the global with a first sample before the loop
  starts.\<close>

definition sensor_thread ::
    "CpuTimes \<Rightarrow> (CpuTimes \<times> string) list \<Rightarrow> CpuTimes \<Rightarrow> SensorData list option" where
  "sensor_thread first_sample ticks prev_cpu_times =
     (let prev_cpu_times = first_sample in sensor_loop ticks prev_cpu_times)"

section \<open>The shared record under interleaving\<close>

text \<open>
  The two samplers assign the four members of the global \<^verbatim>\<open>sensor_reading\<close> one
  after the other, with a sleep between the assignments and no lock (lines 108-117 and
  146-155). The reporter's copy of line 177 is the implicit copy assignment of the struct,
  which copies member by member in the order of declaration: \<^verbatim>\<open>sensor_id\<close>,
  \<^verbatim>\<open>value\<close>, \<^verbatim>\<open>timestamp\<close>, \<^verbatim>\<open>is_valid\<close>. The steps of the model are these
  operations of the source: the assignment of one member and the copy of one member. A run
  of the three threads is an interleaving of their steps.

  A step on a \<^verbatim>\<open>std::string\<close> member is itself a sequence of machine operations,
  which the unsynchronised threads may overlap, so that a string is read half written.
  Such overlaps are not represented: every run of the model is a run the program has, and
  not conversely. The properties proved below of every run therefore speak only of the
  member \<^verbatim>\<open>is_valid\<close>, a \<^verbatim>\<open>bool\<close> assigned and copied by one store and one load,
  or of runs in which a whole publication and a whole copy follow each other with no step
  in between. The counter \<^verbatim>\<open>write_counter\<close> is written and never read, and is left
  out.
\<close>

datatype action =
    WriteSensorId string
  | WriteValue real
  | WriteTimestamp string
  | WriteIsValid bool
  | ReadSensorId
  | ReadValue
  | ReadTimestamp
  | ReadIsValid

text \<open>The four assignments of a publication, in the order of lines 108-117 and 146-155.\<close>

fun field_writes :: "SensorData \<Rightarrow> action list" where
  "field_writes r =
     [WriteSensorId (sensor_id r), WriteValue (value_d r), WriteTimestamp (timestamp r),
      WriteIsValid (is_valid r)]"

text \<open>The four member copies of line 177.\<close>

definition copy_actions :: "action list" where
  "copy_actions = [ReadSensorId, ReadValue, ReadTimestamp, ReadIsValid]"

definition sensor_thread_actions :: "(real \<times> string) list \<Rightarrow> action list" where
  "sensor_thread_actions samples =
     concat (map (\<lambda>(cpu_usage, ts). field_writes (cpu_publication cpu_usage ts)) samples)"

definition disk_usage_thread_actions :: "(real \<times> string) list \<Rightarrow> action list" where
  "disk_usage_thread_actions samples =
     concat (map (\<lambda>(usage, ts). field_writes (disk_publication usage ts)) samples)"

definition comm_thread_actions :: "nat \<Rightarrow> action list" where
  "comm_thread_actions n = concat (replicate n copy_actions)"

text \<open>
  The memory the steps work on: the global \<^verbatim>\<open>sensor_reading\<close> (line 32), the
  reporter's local \<^verbatim>\<open>current_reading\<close> (line 174), and the copies the reporter has
  completed so far, in order. A copy is complete when its last member, \<^verbatim>\<open>is_valid\<close>,
  has been copied; the local is constructed anew in every iteration, and every member of
  it is overwritten by the copy before it is used.
\<close>

record world =
  shared_reading :: SensorData
  local_reading :: SensorData
  copies :: "SensorData list"

definition world_init :: world where
  "world_init = \<lparr>shared_reading = SensorData_init, local_reading = SensorData_init, copies = []\<rparr>"

fun step :: "action \<Rightarrow> world \<Rightarrow> world" where
  "step (WriteSensorId x) w = w\<lparr>shared_reading := (shared_reading w)\<lparr>sensor_id := x\<rparr>\<rparr>"
| "step (WriteValue x) w = w\<lparr>shared_reading := (shared_reading w)\<lparr>value_d := x\<rparr>\<rparr>"
| "step (WriteTimestamp x) w = w\<lparr>shared_reading := (shared_reading w)\<lparr>timestamp := x\<rparr>\<rparr>"
| "step (WriteIsValid x) w = w\<lparr>shared_reading := (shared_reading w)\<lparr>is_valid := x\<rparr>\<rparr>"
| "step ReadSensorId w =
     w\<lparr>local_reading := (local_reading w)\<lparr>sensor_id := sensor_id (shared_reading w)\<rparr>\<rparr>"
| "step ReadValue w =
     w\<lparr>local_reading := (local_reading w)\<lparr>value_d := value_d (shared_reading w)\<rparr>\<rparr>"
| "step ReadTimestamp w =
     w\<lparr>local_reading := (local_reading w)\<lparr>timestamp := timestamp (shared_reading w)\<rparr>\<rparr>"
| "step ReadIsValid w =
     (let current_reading = (local_reading w)\<lparr>is_valid := is_valid (shared_reading w)\<rparr>
      in w\<lparr>local_reading := current_reading, copies := copies w @ [current_reading]\<rparr>)"

fun run_actions :: "action list \<Rightarrow> world \<Rightarrow> world" where
  "run_actions [] w = w"
| "run_actions (a # rest) w = run_actions rest (step a w)"

definition interleavings :: "action list \<Rightarrow> action list \<Rightarrow> action list \<Rightarrow> action list set" where
  "interleavings cpu disk reporter = (\<Union>t \<in> shuffles disk reporter. shuffles cpu t)"

section \<open>Properties of the reporter's iteration\<close>

text \<open>The two branches of an iteration, written out.\<close>

lemma comm_tick_valid:
  "is_valid r \<Longrightarrow> comm_tick r z s =
     \<lparr>corruption_count = (if corrupted r then corruption_count s + 1 else corruption_count s),
      total_reads = total_reads s + 1,
      console = console s
        @ (if corrupted r then [ErrorDataCorruption (sensor_id r) (value_d r) (timestamp r)]
           else [])
        @ exchange_log z
        @ (if sint (total_reads s + 1) smod 50 = 0
           then [Stats (total_reads s + 1)
                   (if corrupted r then corruption_count s + 1 else corruption_count s)
                   (corruption_rate
                      (if corrupted r then corruption_count s + 1 else corruption_count s)
                      (total_reads s + 1))]
           else []),
      sent = sent s @ [build_message r (\<not> corrupted r)]\<rparr>"
  by (simp add: comm_tick_def Let_def)

lemma comm_tick_invalid:
  "\<not> is_valid r \<Longrightarrow> comm_tick r z s = s\<lparr>total_reads := total_reads s + 1\<rparr>"
  by (simp add: comm_tick_def Let_def)

text \<open>
  Claim C2. On an iteration that processes its snapshot (\<open>is_valid\<close> holds, line 181),
  the message carries \<open>data_consistent = false\<close>, and the corruption counter moves,
  exactly when the snapshot is a CPU reading with a value below 0 or above 100, or a disk
  reading with a value above 100, or has an empty sensor id or an empty timestamp. A
  negative disk value alone does not flag.
\<close>

theorem validation_flags_iff:
  "is_valid r \<Longrightarrow>
   ((last (sent (comm_tick r z s)) ''data_consistent'' = Some (JBool False)) \<longleftrightarrow>
      (sensor_id r = ''cpu_usage_01'' \<and> (value_d r < 0 \<or> value_d r > 100)) \<or>
      (sensor_id r = ''disk_usage_root'' \<and> value_d r > 100) \<or>
      sensor_id r = [] \<or> timestamp r = []) \<and>
   ((corruption_count (comm_tick r z s) \<noteq> corruption_count s) \<longleftrightarrow>
      (sensor_id r = ''cpu_usage_01'' \<and> (value_d r < 0 \<or> value_d r > 100)) \<or>
      (sensor_id r = ''disk_usage_root'' \<and> value_d r > 100) \<or>
      sensor_id r = [] \<or> timestamp r = [])"
proof -
  assume v: "is_valid r"
  have flag: "last (sent (comm_tick r z s)) ''data_consistent'' = Some (JBool (\<not> corrupted r))"
    by (simp add: comm_tick_valid [OF v] build_message_def json_object_def)
  have cnt: "corruption_count (comm_tick r z s) \<noteq> corruption_count s \<longleftrightarrow> corrupted r"
    by (simp add: comm_tick_valid [OF v])
  have c: "corrupted r \<longleftrightarrow>
      (sensor_id r = ''cpu_usage_01'' \<and> (value_d r < 0 \<or> value_d r > 100)) \<or>
      (sensor_id r = ''disk_usage_root'' \<and> value_d r > 100) \<or>
      sensor_id r = [] \<or> timestamp r = []"
    unfolding corrupted_def by blast
  show ?thesis
    unfolding flag cnt c by simp
qed

text \<open>The boundary cases: a CPU value of 100 is consistent, 100.0001 and -0.0001 are not,
  an empty sensor id is not, and a disk value of -1 is consistent.\<close>

theorem validation_flags_iff_witness:
  "is_valid (cpu_publication 100 ''2024-01-01T00:00:00Z'') \<and>
   last (sent (comm_tick (cpu_publication 100 ''2024-01-01T00:00:00Z'') RecvReply comm_init))
     ''data_consistent'' \<noteq> Some (JBool False) \<and>
   last (sent (comm_tick (cpu_publication 100.0001 ''2024-01-01T00:00:00Z'') RecvReply comm_init))
     ''data_consistent'' = Some (JBool False) \<and>
   last (sent (comm_tick (cpu_publication (-0.0001) ''2024-01-01T00:00:00Z'') RecvReply comm_init))
     ''data_consistent'' = Some (JBool False) \<and>
   last (sent (comm_tick \<lparr>sensor_id = [], value_d = 50, timestamp = ''2024-01-01T00:00:00Z'',
     is_valid = True\<rparr> RecvReply comm_init)) ''data_consistent'' = Some (JBool False) \<and>
   last (sent (comm_tick (disk_publication (-1) ''2024-01-01T00:00:00Z'') RecvReply comm_init))
     ''data_consistent'' \<noteq> Some (JBool False)"
  using validation_flags_iff [of "cpu_publication 100 ''2024-01-01T00:00:00Z''" RecvReply comm_init]
    validation_flags_iff [of "cpu_publication 100.0001 ''2024-01-01T00:00:00Z''" RecvReply comm_init]
    validation_flags_iff [of "cpu_publication (-0.0001) ''2024-01-01T00:00:00Z''" RecvReply comm_init]
    validation_flags_iff [of "\<lparr>sensor_id = [], value_d = 50, timestamp = ''2024-01-01T00:00:00Z'',
     is_valid = True\<rparr>" RecvReply comm_init]
    validation_flags_iff [of "disk_publication (-1) ''2024-01-01T00:00:00Z''" RecvReply comm_init]
  by (simp add: cpu_publication_def disk_publication_def)

text \<open>
  Claim C5. On an iteration that processes its snapshot, exactly one message is handed to
  the socket: the object with the snapshot's sensor id and timestamp, the snapshot's
  value under \<open>cpu_usage_percent\<close> for the CPU sensor id and under
  \<open>disk_usage_percent\<close> otherwise, and \<open>data_consistent\<close> equal to the negation
  of the validation's verdict. Equality is equality of JSON objects.
\<close>

theorem outgoing_message:
  "is_valid r \<Longrightarrow>
   sent (comm_tick r z s) = sent s @
     [if sensor_id r = ''cpu_usage_01'' then
        json_object [(''sensor_id'', JString (sensor_id r)), (''timestamp'', JString (timestamp r)),
          (''cpu_usage_percent'', JNumber (value_d r)), (''data_consistent'', JBool (\<not> corrupted r))]
      else
        json_object [(''sensor_id'', JString (sensor_id r)), (''timestamp'', JString (timestamp r)),
          (''disk_usage_percent'', JNumber (value_d r)), (''data_consistent'', JBool (\<not> corrupted r))]]"
  by (simp add: comm_tick_valid build_message_def)

text \<open>The end-to-end example of the specification.\<close>

theorem outgoing_message_witness:
  "is_valid (cpu_publication 42.5 ''2024-01-01T00:00:00Z'') \<and>
   sent (comm_tick (cpu_publication 42.5 ''2024-01-01T00:00:00Z'') RecvReply comm_init) =
     [json_object [(''sensor_id'', JString ''cpu_usage_01''),
        (''timestamp'', JString ''2024-01-01T00:00:00Z''),
        (''cpu_usage_percent'', JNumber 42.5), (''data_consistent'', JBool True)]]"
  using outgoing_message [of "cpu_publication 42.5 ''2024-01-01T00:00:00Z''" RecvReply comm_init]
  by (simp add: cpu_publication_def comm_init_def corrupted_def)

text \<open>
  Claim C10. A processed snapshot whose sensor id is anything but \<open>cpu_usage_01\<close>, the
  empty id included, is sent in the disk shape: its value is under
  \<open>disk_usage_percent\<close>, and the object has the four keys of a disk message and no
  other.
\<close>

theorem unrecognized_id_uses_disk_shape:
  "is_valid r \<Longrightarrow> sensor_id r \<noteq> ''cpu_usage_01'' \<Longrightarrow>
   \<exists>m. sent (comm_tick r z s) = sent s @ [m] \<and>
       m ''disk_usage_percent'' = Some (JNumber (value_d r)) \<and>
       dom m = {''sensor_id'', ''timestamp'', ''disk_usage_percent'', ''data_consistent''}"
  by (auto simp: comm_tick_valid build_message_def json_object_def)

theorem unrecognized_id_uses_disk_shape_witness:
  "is_valid \<lparr>sensor_id = [], value_d = 7, timestamp = ''2024-01-01T00:00:00Z'', is_valid = True\<rparr> \<and>
   sensor_id \<lparr>sensor_id = [], value_d = 7, timestamp = ''2024-01-01T00:00:00Z'', is_valid = True\<rparr>
     \<noteq> ''cpu_usage_01'' \<and>
   (\<exists>m. sent (comm_tick \<lparr>sensor_id = [], value_d = 7, timestamp = ''2024-01-01T00:00:00Z'',
            is_valid = True\<rparr> RecvEmpty comm_init) = [m] \<and>
        m ''disk_usage_percent'' = Some (JNumber 7) \<and>
        dom m = {''sensor_id'', ''timestamp'', ''disk_usage_percent'', ''data_consistent''})"
  using unrecognized_id_uses_disk_shape [of "\<lparr>sensor_id = [], value_d = 7,
    timestamp = ''2024-01-01T00:00:00Z'', is_valid = True\<rparr>" RecvEmpty comm_init]
  by (simp add: comm_init_def)

section \<open>Properties of the CPU sampler\<close>

text \<open>What \<^verbatim>\<open>calculate_cpu_usage\<close> returns, in closed form: the guard of line 88 keeps
  the divisor away from zero.\<close>

lemma calculate_cpu_usage_eq:
  "calculate_cpu_usage current prev =
     Some (if 0 <s total_diff current prev
           then real_of_int (sint (total_diff current prev - idle_diff current prev))
                  / real_of_int (sint (total_diff current prev)) * 100
           else 0, current)"
proof (cases "0 <s total_diff current prev")
  case True
  then have "total_diff current prev \<noteq> 0"
    by auto
  then show ?thesis
    using True by (simp add: calculate_cpu_usage_def fdiv_def signed_eq_0_iff)
next
  case False
  then show ?thesis
    by (simp add: calculate_cpu_usage_def)
qed

lemma sensor_loop_total: "\<exists>pubs. sensor_loop ticks prev = Some pubs"
proof (induction ticks arbitrary: prev)
  case Nil
  show ?case by simp
next
  case (Cons t ticks)
  obtain current ts where t: "t = (current, ts)" by (cases t)
  from Cons.IH [of current] obtain pubs where "sensor_loop ticks current = Some pubs" ..
  then show ?case
    by (simp add: t calculate_cpu_usage_eq)
qed

text \<open>
  Claim C9. \<^verbatim>\<open>calculate_cpu_usage\<close> always returns a value (no division by zero
  occurs): when \<^verbatim>\<open>total_diff\<close> is positive the divisor is not zero and the result is
  the busy share times 100; in every other case the result is exactly 0.
\<close>

theorem no_division_by_zero:
  "(\<exists>cpu_usage. calculate_cpu_usage current prev = Some (cpu_usage, current)) \<and>
   (0 <s total_diff current prev \<longrightarrow>
      real_of_int (sint (total_diff current prev)) \<noteq> 0 \<and>
      calculate_cpu_usage current prev =
        Some (real_of_int (sint (total_diff current prev - idle_diff current prev))
                / real_of_int (sint (total_diff current prev)) * 100, current)) \<and>
   (\<not> 0 <s total_diff current prev \<longrightarrow> calculate_cpu_usage current prev = Some (0, current))"
  by (auto simp: calculate_cpu_usage_eq signed_eq_0_iff)

text \<open>A positive delta (100 ticks, 50 of them idle), a negative one and a zero one.\<close>

theorem no_division_by_zero_witness:
  "0 <s total_diff (CpuTimes_zero\<lparr>user := 150, idle := 150\<rparr>)
          (CpuTimes_zero\<lparr>user := 100, idle := 100\<rparr>) \<and>
   calculate_cpu_usage (CpuTimes_zero\<lparr>user := 150, idle := 150\<rparr>)
     (CpuTimes_zero\<lparr>user := 100, idle := 100\<rparr>) =
     Some (50, CpuTimes_zero\<lparr>user := 150, idle := 150\<rparr>) \<and>
   \<not> 0 <s total_diff (CpuTimes_zero\<lparr>user := 100, idle := 100\<rparr>)
            (CpuTimes_zero\<lparr>user := 150, idle := 150\<rparr>) \<and>
   calculate_cpu_usage (CpuTimes_zero\<lparr>user := 100, idle := 100\<rparr>)
     (CpuTimes_zero\<lparr>user := 150, idle := 150\<rparr>) =
     Some (0, CpuTimes_zero\<lparr>user := 100, idle := 100\<rparr>) \<and>
   \<not> 0 <s total_diff CpuTimes_zero CpuTimes_zero \<and>
   calculate_cpu_usage CpuTimes_zero CpuTimes_zero = Some (0, CpuTimes_zero)"
  using no_division_by_zero [of "CpuTimes_zero\<lparr>user := 150, idle := 150\<rparr>"
      "CpuTimes_zero\<lparr>user := 100, idle := 100\<rparr>"]
    no_division_by_zero [of "CpuTimes_zero\<lparr>user := 100, idle := 100\<rparr>"
      "CpuTimes_zero\<lparr>user := 150, idle := 150\<rparr>"]
    no_division_by_zero [of CpuTimes_zero CpuTimes_zero]
  by (simp add: total_diff_def idle_diff_def CpuTimes_zero_def word_sless_alt)

text \<open>
  Claim C7. The sample the CPU sampler takes without a prior one is the one read at thread
  start (line 102): it is only stored, and no usage is computed or published from it. The
  first usage that is published is the busy share, times 100, of the tick delta between
  that stored sample and the sample read in the first iteration, and 0 when that delta is
  not positive. It depends on those two samples only: not on what the global
  \<^verbatim>\<open>prev_cpu_times\<close> held before the thread started, and on nothing of the disk
  sampler. In general \<^verbatim>\<open>calculate_cpu_usage\<close> returns 0 whenever the total delta to the
  stored sample is not positive.
\<close>

theorem first_tick_usage:
  "sensor_thread first_sample [] prev_cpu_times = Some [] \<and>
   sensor_thread first_sample ticks prev_cpu_times =
     sensor_thread first_sample ticks CpuTimes_zero \<and>
   (\<exists>pubs. sensor_thread first_sample ((current, ts) # rest) prev_cpu_times =
      Some (cpu_publication
              (if 0 <s total_diff current first_sample
               then real_of_int (sint (total_diff current first_sample
                                        - idle_diff current first_sample))
                      / real_of_int (sint (total_diff current first_sample)) * 100
               else 0) ts # pubs)) \<and>
   (\<not> 0 <s total_diff sample stored \<longrightarrow>
      map_option fst (calculate_cpu_usage sample stored) = Some 0)"
proof -
  obtain pubs where "sensor_loop rest current = Some pubs"
    using sensor_loop_total by blast
  then show ?thesis
    by (simp add: sensor_thread_def calculate_cpu_usage_eq)
qed

text \<open>The sample at thread start publishes nothing; a first iteration 100 ticks later, 50
  of them idle, publishes 50; a first iteration with no tick in between publishes 0.\<close>

theorem first_tick_usage_witness:
  "sensor_thread (CpuTimes_zero\<lparr>user := 100, idle := 100\<rparr>) [] (CpuTimes_zero\<lparr>user := 7\<rparr>) =
     Some [] \<and>
   sensor_thread (CpuTimes_zero\<lparr>user := 100, idle := 100\<rparr>)
      [(CpuTimes_zero\<lparr>user := 150, idle := 150\<rparr>, ''2024-01-01T00:00:01Z'')]
      (CpuTimes_zero\<lparr>user := 7\<rparr>) =
     Some [cpu_publication 50 ''2024-01-01T00:00:01Z''] \<and>
   sensor_thread (CpuTimes_zero\<lparr>user := 100, idle := 100\<rparr>)
      [(CpuTimes_zero\<lparr>user := 100, idle := 100\<rparr>, ''2024-01-01T00:00:01Z'')]
      (CpuTimes_zero\<lparr>user := 7\<rparr>) =
     Some [cpu_publication 0 ''2024-01-01T00:00:01Z''] \<and>
   \<not> 0 <s total_diff (CpuTimes_zero\<lparr>user := 100, idle := 100\<rparr>)
            (CpuTimes_zero\<lparr>user := 100, idle := 100\<rparr>) \<and>
   map_option fst (calculate_cpu_usage (CpuTimes_zero\<lparr>user := 100, idle := 100\<rparr>)
     (CpuTimes_zero\<lparr>user := 100, idle := 100\<rparr>)) = Some 0"
  using first_tick_usage [of "CpuTimes_zero\<lparr>user := 100, idle := 100\<rparr>"
      "CpuTimes_zero\<lparr>user := 7\<rparr>" "[]"
      "CpuTimes_zero\<lparr>user := 150, idle := 150\<rparr>" "''2024-01-01T00:00:01Z''" "[]"
      "CpuTimes_zero\<lparr>user := 100, idle := 100\<rparr>"
      "CpuTimes_zero\<lparr>user := 100, idle := 100\<rparr>"]
    first_tick_usage [of "CpuTimes_zero\<lparr>user := 100, idle := 100\<rparr>"
      "CpuTimes_zero\<lparr>user := 7\<rparr>" "[]"
      "CpuTimes_zero\<lparr>user := 100, idle := 100\<rparr>" "''2024-01-01T00:00:01Z''" "[]"
      "CpuTimes_zero\<lparr>user := 100, idle := 100\<rparr>"
      "CpuTimes_zero\<lparr>user := 100, idle := 100\<rparr>"]
  by (simp add: sensor_thread_def calculate_cpu_usage_def fdiv_def total_diff_def idle_diff_def
        CpuTimes_zero_def cpu_publication_def Let_def word_sless_alt)

section \<open>Properties of the reporter's loop\<close>

lemma total_reads_comm_tick: "total_reads (comm_tick r z s) = total_reads s + 1"
  by (cases "is_valid r") (simp_all add: comm_tick_valid comm_tick_invalid)

lemma corruption_count_comm_tick:
  "corruption_count (comm_tick r z s) =
     (if is_valid r \<and> corrupted r then corruption_count s + 1 else corruption_count s)"
  by (cases "is_valid r") (simp_all add: comm_tick_valid comm_tick_invalid)

text \<open>Incrementing an \<^verbatim>\<open>int\<close> below \<^verbatim>\<open>INT_MAX\<close> does not wrap.\<close>

lemma sint_incr:
  fixes w :: "32 word"
  assumes "sint w < 2147483647"
  shows "sint (w + 1) = sint w + 1"
proof -
  have lo: "- 2147483648 \<le> sint w"
    using sint_ge [of w] by simp
  have "sint (w + 1) = signed_take_bit 31 (sint w + 1)"
    by (simp add: sint_word_ariths)
  also have "\<dots> = sint w + 1"
    using lo assms by (simp add: signed_take_bit_int_eq_self)
  finally show ?thesis .
qed

lemma total_reads_comm_loop:
  "sint (total_reads s) + int (length ticks) \<le> 2147483647 \<Longrightarrow>
   sint (total_reads (comm_loop ticks s)) = sint (total_reads s) + int (length ticks)"
proof (induction ticks arbitrary: s)
  case Nil
  show ?case by simp
next
  case (Cons t ticks)
  obtain r z where t: "t = (r, z)" by (cases t)
  from Cons.prems have "sint (total_reads s) < 2147483647" by simp
  then have step: "sint (total_reads (comm_tick r z s)) = sint (total_reads s) + 1"
    by (simp add: total_reads_comm_tick sint_incr)
  with Cons.prems have "sint (total_reads (comm_tick r z s)) + int (length ticks) \<le> 2147483647"
    by simp
  from Cons.IH [OF this] show ?case
    by (simp add: t step)
qed

lemma corruption_count_comm_loop:
  "sint (corruption_count s) + int (length ticks) \<le> 2147483647 \<Longrightarrow>
   sint (corruption_count (comm_loop ticks s)) =
     sint (corruption_count s) + int (length (filter (\<lambda>(r, z). is_valid r \<and> corrupted r) ticks))"
proof (induction ticks arbitrary: s)
  case Nil
  show ?case by simp
next
  case (Cons t ticks)
  obtain r z where t: "t = (r, z)" by (cases t)
  show ?case
  proof (cases "is_valid r \<and> corrupted r")
    case True
    from Cons.prems have "sint (corruption_count s) < 2147483647" by simp
    then have step: "sint (corruption_count (comm_tick r z s)) = sint (corruption_count s) + 1"
      using True by (simp add: corruption_count_comm_tick sint_incr)
    with Cons.prems
    have "sint (corruption_count (comm_tick r z s)) + int (length ticks) \<le> 2147483647"
      by simp
    from Cons.IH [OF this] show ?thesis
      using True by (simp add: t step)
  next
    case False
    then have step: "corruption_count (comm_tick r z s) = corruption_count s"
      by (simp add: corruption_count_comm_tick)
    with Cons.prems
    have "sint (corruption_count (comm_tick r z s)) + int (length ticks) \<le> 2147483647"
      by simp
    from Cons.IH [OF this] show ?thesis
      using False by (simp add: t step)
  qed
qed

text \<open>
  Claim C3, as stated, fails: \<^verbatim>\<open>total_reads++\<close> (line 179) stands before the test of
  \<^verbatim>\<open>is_valid\<close> (line 181), so a skipped iteration counts as a read too. On the
  never-published record nothing is sent, and \<^verbatim>\<open>total_reads\<close> goes from 0 to 1.
\<close>

theorem skipped_tick_is_counted_counterexample:
  "\<not> is_valid SensorData_init \<and>
   sent (comm_tick SensorData_init RecvReply comm_init) = [] \<and>
   sint (total_reads comm_init) = 0 \<and>
   sint (total_reads (comm_tick SensorData_init RecvReply comm_init)) = 1"
  by (simp add: comm_tick_def SensorData_init_def comm_init_def)

text \<open>
  Claim C3, amended. Every iteration, skipped or processed, adds exactly 1 to
  \<^verbatim>\<open>total_reads\<close>; an iteration adds exactly 1 to \<^verbatim>\<open>corruption_count\<close> when it
  processes a snapshot that fails validation, and 0 otherwise. Over any run, from any
  state, \<^verbatim>\<open>total_reads\<close> grows by the number of iterations and
  \<^verbatim>\<open>corruption_count\<close> by the number of processed, failing snapshots, so neither is
  reset or decreases. All of this as long as the 32-bit counters stay within
  \<^verbatim>\<open>INT_MAX\<close>.
\<close>

theorem counters_monotone:
  "(sint (total_reads s) < 2147483647 \<longrightarrow>
      sint (total_reads (comm_tick r z s)) = sint (total_reads s) + 1) \<and>
   (sint (corruption_count s) < 2147483647 \<longrightarrow>
      sint (corruption_count (comm_tick r z s)) =
        sint (corruption_count s) + (if is_valid r \<and> corrupted r then 1 else 0)) \<and>
   (sint (total_reads s) + int (length ticks) \<le> 2147483647 \<longrightarrow>
      sint (total_reads (comm_loop ticks s)) = sint (total_reads s) + int (length ticks) \<and>
      sint (total_reads s) \<le> sint (total_reads (comm_loop ticks s))) \<and>
   (sint (corruption_count s) + int (length ticks) \<le> 2147483647 \<longrightarrow>
      sint (corruption_count (comm_loop ticks s)) =
        sint (corruption_count s)
          + int (length (filter (\<lambda>(r, z). is_valid r \<and> corrupted r) ticks)) \<and>
      sint (corruption_count s) \<le> sint (corruption_count (comm_loop ticks s)))"
  by (simp add: total_reads_comm_tick corruption_count_comm_tick sint_incr
        total_reads_comm_loop corruption_count_comm_loop)

text \<open>A run of three iterations: a skipped one, a disk reading of 142 and a CPU reading of
  42.5.\<close>

theorem counters_monotone_witness:
  "sint (total_reads comm_init) < 2147483647 \<and>
   sint (corruption_count comm_init) < 2147483647 \<and>
   sint (total_reads (comm_tick (disk_publication 142 ''2024-01-01T00:00:00Z'') RecvReply comm_init))
     = 1 \<and>
   sint (corruption_count
           (comm_tick (disk_publication 142 ''2024-01-01T00:00:00Z'') RecvReply comm_init)) = 1 \<and>
   sint (total_reads comm_init) + int (length
     [(SensorData_init, RecvReply),
      (disk_publication 142 ''2024-01-01T00:00:00Z'', RecvReply),
      (cpu_publication 42.5 ''2024-01-01T00:00:01Z'', RecvReply)]) \<le> 2147483647 \<and>
   sint (total_reads (comm_loop
     [(SensorData_init, RecvReply),
      (disk_publication 142 ''2024-01-01T00:00:00Z'', RecvReply),
      (cpu_publication 42.5 ''2024-01-01T00:00:01Z'', RecvReply)] comm_init)) = 3 \<and>
   sint (corruption_count (comm_loop
     [(SensorData_init, RecvReply),
      (disk_publication 142 ''2024-01-01T00:00:00Z'', RecvReply),
      (cpu_publication 42.5 ''2024-01-01T00:00:01Z'', RecvReply)] comm_init)) = 1"
  using counters_monotone [of comm_init "disk_publication 142 ''2024-01-01T00:00:00Z''" RecvReply
    "[(SensorData_init, RecvReply),
      (disk_publication 142 ''2024-01-01T00:00:00Z'', RecvReply),
      (cpu_publication 42.5 ''2024-01-01T00:00:01Z'', RecvReply)]"]
  by (simp add: comm_init_def SensorData_init_def disk_publication_def cpu_publication_def
        corrupted_def)

text \<open>On a processed iteration a failing exchange writes exactly one line that reports
  it.\<close>

lemma transport_failure_logged:
  "is_valid r \<Longrightarrow> z \<noteq> RecvReply \<Longrightarrow>
   length (filter is_transport_failure (console (comm_tick r z s))) =
     Suc (length (filter is_transport_failure (console s)))"
  by (cases z) (simp_all add: comm_tick_valid)

lemma sent_comm_tick_valid: "is_valid r \<Longrightarrow> length (sent (comm_tick r z s)) = Suc (length (sent s))"
  by (simp add: comm_tick_valid)

text \<open>
  Claim C6. A run in which every iteration processes a snapshot and every exchange fails
  (\<^verbatim>\<open>send\<close> throws, \<^verbatim>\<open>recv\<close> throws, or \<^verbatim>\<open>recv\<close> returns nothing) goes through
  all its \<open>N\<close> iterations: \<open>N\<close> reads are counted, \<open>N\<close> messages are handed to the
  socket, and \<open>N\<close> lines reporting a failed exchange are written.
\<close>

theorem transport_failures_not_fatal:
  "\<forall>(r, z) \<in> set ticks. is_valid r \<and> z \<noteq> RecvReply \<Longrightarrow>
   length (filter is_transport_failure (console (comm_loop ticks s))) =
     length (filter is_transport_failure (console s)) + length ticks \<and>
   length (sent (comm_loop ticks s)) = length (sent s) + length ticks \<and>
   total_reads (comm_loop ticks s) = total_reads s + of_nat (length ticks)"
proof (induction ticks arbitrary: s)
  case Nil
  show ?case by simp
next
  case (Cons t ticks)
  obtain r z where t: "t = (r, z)" by (cases t)
  from Cons.prems have v: "is_valid r" and f: "z \<noteq> RecvReply"
    by (simp_all add: t)
  from Cons.prems have "\<forall>(r, z) \<in> set ticks. is_valid r \<and> z \<noteq> RecvReply"
    by simp
  from Cons.IH [OF this, of "comm_tick r z s"] show ?case
    by (simp add: t transport_failure_logged [OF v f] sent_comm_tick_valid [OF v]
          total_reads_comm_tick)
qed

text \<open>Three iterations, one for each way an exchange can fail.\<close>

theorem transport_failures_not_fatal_witness:
  "is_valid (cpu_publication 42.5 ''2024-01-01T00:00:00Z'') \<and>
   is_valid (disk_publication 61 ''2024-01-01T00:00:01Z'') \<and>
   is_valid (cpu_publication 43 ''2024-01-01T00:00:02Z'') \<and>
   length (filter is_transport_failure (console (comm_loop
      [(cpu_publication 42.5 ''2024-01-01T00:00:00Z'', SendThrows ''Host unreachable''),
       (disk_publication 61 ''2024-01-01T00:00:01Z'', RecvEmpty),
       (cpu_publication 43 ''2024-01-01T00:00:02Z'', RecvThrows ''Interrupted system call'')]
      comm_init))) = 3 \<and>
   length (sent (comm_loop
      [(cpu_publication 42.5 ''2024-01-01T00:00:00Z'', SendThrows ''Host unreachable''),
       (disk_publication 61 ''2024-01-01T00:00:01Z'', RecvEmpty),
       (cpu_publication 43 ''2024-01-01T00:00:02Z'', RecvThrows ''Interrupted system call'')]
      comm_init)) = 3 \<and>
   total_reads (comm_loop
      [(cpu_publication 42.5 ''2024-01-01T00:00:00Z'', SendThrows ''Host unreachable''),
       (disk_publication 61 ''2024-01-01T00:00:01Z'', RecvEmpty),
       (cpu_publication 43 ''2024-01-01T00:00:02Z'', RecvThrows ''Interrupted system call'')]
      comm_init) = 3"
  using transport_failures_not_fatal [of
      "[(cpu_publication 42.5 ''2024-01-01T00:00:00Z'', SendThrows ''Host unreachable''),
       (disk_publication 61 ''2024-01-01T00:00:01Z'', RecvEmpty),
       (cpu_publication 43 ''2024-01-01T00:00:02Z'', RecvThrows ''Interrupted system call'')]"
      comm_init]
  by (simp add: comm_init_def cpu_publication_def disk_publication_def)

text \<open>C++'s truncating remainder by 50 is zero exactly on the multiples of 50.\<close>

lemma smod_50_iff: "(k::int) smod 50 = 0 \<longleftrightarrow> 50 dvd k"
proof -
  have "k smod 50 = 0 \<longleftrightarrow> k = 0 \<or> \<bar>k\<bar> mod 50 = 0"
    by (simp add: signed_modulo_int_def sgn_eq_0_iff)
  also have "\<dots> \<longleftrightarrow> k = 0 \<or> 50 dvd \<bar>k\<bar>"
    by (simp only: dvd_eq_mod_eq_0)
  also have "\<dots> \<longleftrightarrow> 50 dvd k"
    by auto
  finally show ?thesis .
qed

lemma skipped_run:
  "\<not> is_valid r \<Longrightarrow>
   comm_loop (replicate n (r, z)) s = s\<lparr>total_reads := total_reads s + of_nat n\<rparr>"
proof (induction n arbitrary: s)
  case 0
  show ?case by simp
next
  case (Suc n)
  from Suc.IH [OF Suc.prems, of "comm_tick r z s"] show ?case
    by (simp add: comm_tick_invalid [OF Suc.prems] ac_simps)
qed

lemma stats_comm_tick_valid:
  "is_valid r \<Longrightarrow>
   filter is_stats (console (comm_tick r z s)) = filter is_stats (console s)
     @ (if sint (total_reads s + 1) smod 50 = 0
        then [Stats (total_reads (comm_tick r z s)) (corruption_count (comm_tick r z s))
                (corruption_rate (corruption_count (comm_tick r z s))
                   (total_reads (comm_tick r z s)))]
        else [])"
  by (cases z) (simp_all add: comm_tick_valid)

text \<open>
  Claim C8, as stated, fails: the summary is written inside the branch that processes a
  snapshot (lines 181-231), so a skipped iteration writes none, whatever
  \<^verbatim>\<open>total_reads\<close> is. After 50 iterations on a slot nobody has published to,
  \<^verbatim>\<open>total_reads\<close> is 50 and nothing has been written.
\<close>

theorem no_summary_on_skipped_read_counterexample:
  "sint (total_reads (comm_loop (replicate 50 (SensorData_init, RecvReply)) comm_init)) = 50 \<and>
   console (comm_loop (replicate 50 (SensorData_init, RecvReply)) comm_init) = []"
  by (simp add: skipped_run SensorData_init_def comm_init_def)

text \<open>
  Claim C8, amended. An iteration that processes its snapshot writes a summary exactly when
  \<^verbatim>\<open>total_reads\<close>, after its increment, is a multiple of 50; the summary carries the
  two counters and \<^verbatim>\<open>corruption_count / total_reads * 100\<close>. A skipped iteration
  writes nothing. After the loop the thread writes a final summary, with the same rate, or
  0 when \<^verbatim>\<open>total_reads\<close> is not positive.
\<close>

theorem rolling_and_final_summary:
  "(is_valid r \<longrightarrow>
      filter is_stats (console (comm_tick r z s)) = filter is_stats (console s)
        @ (if 50 dvd sint (total_reads (comm_tick r z s))
           then [Stats (total_reads (comm_tick r z s)) (corruption_count (comm_tick r z s))
                   (real_of_int (sint (corruption_count (comm_tick r z s)))
                      / real_of_int (sint (total_reads (comm_tick r z s))) * 100)]
           else [])) \<and>
   (\<not> is_valid r \<longrightarrow> console (comm_tick r z s) = console s) \<and>
   console (comm_thread ticks) = console (comm_loop ticks comm_init)
     @ [FinalStats (total_reads (comm_loop ticks comm_init))
          (corruption_count (comm_loop ticks comm_init))
          (if 0 < sint (total_reads (comm_loop ticks comm_init))
           then real_of_int (sint (corruption_count (comm_loop ticks comm_init)))
                  / real_of_int (sint (total_reads (comm_loop ticks comm_init))) * 100
           else 0)]"
proof -
  have a: "is_valid r \<longrightarrow>
      filter is_stats (console (comm_tick r z s)) = filter is_stats (console s)
        @ (if 50 dvd sint (total_reads (comm_tick r z s))
           then [Stats (total_reads (comm_tick r z s)) (corruption_count (comm_tick r z s))
                   (real_of_int (sint (corruption_count (comm_tick r z s)))
                      / real_of_int (sint (total_reads (comm_tick r z s))) * 100)]
           else [])"
    using stats_comm_tick_valid [of r z s]
    by (simp add: smod_50_iff total_reads_comm_tick corruption_rate_def)
  have b: "\<not> is_valid r \<longrightarrow> console (comm_tick r z s) = console s"
    by (simp add: comm_tick_invalid)
  have c: "console (comm_thread ticks) = console (comm_loop ticks comm_init)
     @ [FinalStats (total_reads (comm_loop ticks comm_init))
          (corruption_count (comm_loop ticks comm_init))
          (if 0 < sint (total_reads (comm_loop ticks comm_init))
           then real_of_int (sint (corruption_count (comm_loop ticks comm_init)))
                  / real_of_int (sint (total_reads (comm_loop ticks comm_init))) * 100
           else 0)]"
    by (simp add: comm_thread_def final_stats_def corruption_rate_def word_sless_alt)
  from a b c show ?thesis by blast
qed

text \<open>The 50th read with 7 corruptions so far gives a rate of 14; a skipped 50th read
  writes nothing; a run of two reads ends with the final summary.\<close>

theorem rolling_and_final_summary_witness:
  "is_valid (cpu_publication 42.5 ''2024-01-01T00:00:00Z'') \<and>
   filter is_stats (console (comm_tick (cpu_publication 42.5 ''2024-01-01T00:00:00Z'') RecvReply
      (comm_init\<lparr>corruption_count := 7, total_reads := 49\<rparr>))) = [Stats 50 7 14] \<and>
   \<not> is_valid SensorData_init \<and>
   console (comm_tick SensorData_init RecvReply
      (comm_init\<lparr>corruption_count := 7, total_reads := 49\<rparr>)) = [] \<and>
   console (comm_thread [(disk_publication 142 ''2024-01-01T00:00:00Z'', RecvReply),
      (cpu_publication 42.5 ''2024-01-01T00:00:01Z'', RecvReply)]) =
     [ErrorDataCorruption ''disk_usage_root'' 142 ''2024-01-01T00:00:00Z'', FinalStats 2 1 50]"
  using rolling_and_final_summary [of "cpu_publication 42.5 ''2024-01-01T00:00:00Z''" RecvReply
      "comm_init\<lparr>corruption_count := 7, total_reads := 49\<rparr>"
      "[(disk_publication 142 ''2024-01-01T00:00:00Z'', RecvReply),
        (cpu_publication 42.5 ''2024-01-01T00:00:01Z'', RecvReply)]"]
    rolling_and_final_summary [of SensorData_init RecvReply
      "comm_init\<lparr>corruption_count := 7, total_reads := 49\<rparr>" "[]"]
  by (simp add: comm_tick_def comm_init_def cpu_publication_def disk_publication_def
        SensorData_init_def corrupted_def smod_50_iff corruption_rate_def)

section \<open>Properties of the shared record under interleaving\<close>

lemma run_actions_append: "run_actions (t @ u) w = run_actions u (run_actions t w)"
  by (induction t arbitrary: w) simp_all



text \<open>Completed copies stay.\<close>

lemma copies_step: "\<exists>more. copies (step a w) = copies w @ more"
  by (cases a) (simp_all add: Let_def)

lemma copies_run_actions: "\<exists>more. copies (run_actions t w) = copies w @ more"
proof (induction t arbitrary: w)
  case Nil
  show ?case by simp
next
  case (Cons a t)
  obtain m1 where m1: "copies (step a w) = copies w @ m1"
    using copies_step by blast
  obtain m2 where "copies (run_actions t (step a w)) = copies (step a w) @ m2"
    using Cons.IH by blast
  then show ?case
    by (simp add: m1)
qed

text \<open>The flag of the global is set as soon as an assignment of \<^verbatim>\<open>true\<close> to it has
  run, provided none assigns \<^verbatim>\<open>false\<close>.\<close>

lemma is_valid_shared:
  "WriteIsValid False \<notin> set t \<Longrightarrow>
   is_valid (shared_reading (run_actions t w)) \<longleftrightarrow>
     is_valid (shared_reading w) \<or> WriteIsValid True \<in> set t"
proof (induction t arbitrary: w)
  case Nil
  show ?case by simp
next
  case (Cons a t)
  from Cons.prems have "WriteIsValid False \<notin> set t" and a: "a \<noteq> WriteIsValid False"
    by auto
  from Cons.IH [OF this(1), of "step a w"] a show ?case
    by (cases a) (auto simp: Let_def)
qed

lemma set_interleavings:
  "t \<in> interleavings cpu disk reporter \<Longrightarrow> set t = set cpu \<union> set disk \<union> set reporter"
  by (auto simp: interleavings_def dest!: set_shuffles)

text \<open>No thread assigns \<^verbatim>\<open>false\<close> to the flag (lines 117 and 155 assign
  \<^verbatim>\<open>true\<close>, and the reporter assigns nothing).\<close>

lemma no_thread_clears_is_valid:
  assumes "t \<in> interleavings (sensor_thread_actions cpu_samples)
             (disk_usage_thread_actions disk_samples) (comm_thread_actions n)"
  shows "WriteIsValid False \<notin> set t"
proof -
  have "WriteIsValid False \<notin> set (sensor_thread_actions cpu_samples)"
    by (auto simp: sensor_thread_actions_def cpu_publication_def)
  moreover have "WriteIsValid False \<notin> set (disk_usage_thread_actions disk_samples)"
    by (auto simp: disk_usage_thread_actions_def disk_publication_def)
  moreover have "WriteIsValid False \<notin> set (comm_thread_actions n)"
    by (auto simp: comm_thread_actions_def copy_actions_def)
  ultimately show ?thesis
    by (simp add: set_interleavings [OF assms])
qed


text \<open>Two interleavings of the disk sampler's first publication with one copy: the copy
  before the last assignment, and the copy after it.\<close>

lemma early_copy_interleaving:
  "[WriteSensorId ''disk_usage_root'', WriteValue 61, WriteTimestamp ''2024-01-01T00:00:01Z'',
    ReadSensorId, ReadValue, ReadTimestamp, ReadIsValid, WriteIsValid True]
     \<in> interleavings (sensor_thread_actions [])
         (disk_usage_thread_actions [(61, ''2024-01-01T00:00:01Z'')]) (comm_thread_actions 1)"
proof -
  have "[WriteSensorId ''disk_usage_root'', WriteValue 61,
      WriteTimestamp ''2024-01-01T00:00:01Z'', ReadSensorId, ReadValue, ReadTimestamp,
      ReadIsValid, WriteIsValid True]
     \<in> shuffles (disk_usage_thread_actions [(61, ''2024-01-01T00:00:01Z'')])
         (comm_thread_actions 1)"
    by (simp add: disk_usage_thread_actions_def comm_thread_actions_def copy_actions_def
          disk_publication_def Cons_in_shuffles_iff del: shuffles.simps(3))
  then show ?thesis
    by (simp add: interleavings_def sensor_thread_actions_def)
qed

lemma late_copy_interleaving:
  "[WriteSensorId ''disk_usage_root'', WriteValue 61, WriteTimestamp ''2024-01-01T00:00:01Z'',
    WriteIsValid True, ReadSensorId, ReadValue, ReadTimestamp, ReadIsValid]
     \<in> interleavings (sensor_thread_actions [])
         (disk_usage_thread_actions [(61, ''2024-01-01T00:00:01Z'')]) (comm_thread_actions 1)"
proof -
  have "[WriteSensorId ''disk_usage_root'', WriteValue 61,
      WriteTimestamp ''2024-01-01T00:00:01Z'', WriteIsValid True, ReadSensorId, ReadValue,
      ReadTimestamp, ReadIsValid]
     \<in> shuffles (disk_usage_thread_actions [(61, ''2024-01-01T00:00:01Z'')])
         (comm_thread_actions 1)"
    by (simp add: disk_usage_thread_actions_def comm_thread_actions_def copy_actions_def
          disk_publication_def Cons_in_shuffles_iff del: shuffles.simps(3))
  then show ?thesis
    by (simp add: interleavings_def sensor_thread_actions_def)
qed




text \<open>
  Claim C4. The never-published slot is the default-constructed record, whose
  \<^verbatim>\<open>is_valid\<close> is false, and on it the iteration sends nothing. In every interleaving
  of the three threads, the copy that the reporter completes has \<^verbatim>\<open>is_valid\<close> true
  exactly when some sampler has run the last assignment of a publication before the flag
  is copied. So the reporter's test of the flag observes exactly whether the slot has been
  published to: if not, the iteration sends no message and writes no line (it only counts
  the read); if so, it sends one message.
\<close>

theorem never_published_is_observed:
  "t \<in> interleavings (sensor_thread_actions cpu_samples)
         (disk_usage_thread_actions disk_samples) (comm_thread_actions n) \<Longrightarrow>
   t = before @ ReadIsValid # after \<Longrightarrow>
   \<not> is_valid SensorData_init \<and>
   comm_tick SensorData_init z s = s\<lparr>total_reads := total_reads s + 1\<rparr> \<and>
   (\<exists>snap later.
      copies (run_actions t world_init) = copies (run_actions before world_init) @ snap # later \<and>
      (is_valid snap \<longleftrightarrow> WriteIsValid True \<in> set before) \<and>
      (\<not> is_valid snap \<longrightarrow> comm_tick snap z s = s\<lparr>total_reads := total_reads s + 1\<rparr>) \<and>
      (is_valid snap \<longrightarrow> length (sent (comm_tick snap z s)) = Suc (length (sent s))))"
proof -
  assume t: "t \<in> interleavings (sensor_thread_actions cpu_samples)
         (disk_usage_thread_actions disk_samples) (comm_thread_actions n)"
    and split: "t = before @ ReadIsValid # after"
  let ?w = "run_actions before world_init"
  let ?snap = "(local_reading ?w)\<lparr>is_valid := is_valid (shared_reading ?w)\<rparr>"
  have "WriteIsValid False \<notin> set t"
    using no_thread_clears_is_valid [OF t] .
  then have "WriteIsValid False \<notin> set before"
    by (simp add: split)
  from is_valid_shared [OF this, of world_init]
  have flag: "is_valid ?snap \<longleftrightarrow> WriteIsValid True \<in> set before"
    by (simp add: world_init_def SensorData_init_def)
  obtain later where
    "copies (run_actions after (step ReadIsValid ?w)) = copies (step ReadIsValid ?w) @ later"
    using copies_run_actions by blast
  then have c: "copies (run_actions t world_init) = copies ?w @ ?snap # later"
    by (simp add: split run_actions_append Let_def)
  have skip: "\<not> is_valid ?snap \<longrightarrow> comm_tick ?snap z s = s\<lparr>total_reads := total_reads s + 1\<rparr>"
    using comm_tick_invalid [of ?snap z s] by blast
  have send: "is_valid ?snap \<longrightarrow> length (sent (comm_tick ?snap z s)) = Suc (length (sent s))"
    using sent_comm_tick_valid [of ?snap z s] by blast
  have init: "\<not> is_valid SensorData_init \<and>
      comm_tick SensorData_init z s = s\<lparr>total_reads := total_reads s + 1\<rparr>"
    by (simp add: comm_tick_invalid SensorData_init_def)
  from c flag skip send init show ?thesis
    by blast
qed

text \<open>The disk sampler's first publication with one copy: copied before the last
  assignment, the flag is false and nothing is sent; copied after it, the flag is true and
  one message is sent.\<close>

theorem never_published_is_observed_witness:
  "copies (run_actions
     [WriteSensorId ''disk_usage_root'', WriteValue 61, WriteTimestamp ''2024-01-01T00:00:01Z'',
      ReadSensorId, ReadValue, ReadTimestamp, ReadIsValid, WriteIsValid True] world_init) =
     [\<lparr>sensor_id = ''disk_usage_root'', value_d = 61, timestamp = ''2024-01-01T00:00:01Z'',
       is_valid = False\<rparr>] \<and>
   sent (comm_tick \<lparr>sensor_id = ''disk_usage_root'', value_d = 61,
     timestamp = ''2024-01-01T00:00:01Z'', is_valid = False\<rparr> RecvReply comm_init) = [] \<and>
   copies (run_actions
     [WriteSensorId ''disk_usage_root'', WriteValue 61, WriteTimestamp ''2024-01-01T00:00:01Z'',
      WriteIsValid True, ReadSensorId, ReadValue, ReadTimestamp, ReadIsValid] world_init) =
     [disk_publication 61 ''2024-01-01T00:00:01Z''] \<and>
   length (sent (comm_tick (disk_publication 61 ''2024-01-01T00:00:01Z'') RecvReply comm_init))
     = 1"
  using never_published_is_observed [OF early_copy_interleaving,
      of "[WriteSensorId ''disk_usage_root'', WriteValue 61,
           WriteTimestamp ''2024-01-01T00:00:01Z'', ReadSensorId, ReadValue, ReadTimestamp]"
         "[WriteIsValid True]" RecvReply comm_init]
    never_published_is_observed [OF late_copy_interleaving,
      of "[WriteSensorId ''disk_usage_root'', WriteValue 61,
           WriteTimestamp ''2024-01-01T00:00:01Z'', WriteIsValid True, ReadSensorId, ReadValue,
           ReadTimestamp]"
         "[]" RecvReply comm_init]
  by (simp add: world_init_def SensorData_init_def disk_publication_def comm_init_def
        comm_tick_def Let_def corrupted_def)

end
